theory Spec2Isabelle
  imports Complex_Main
begin

section \<open>Python values, exceptions and the try/except boundary\<close>

text \<open>
  The three tools of \<^verbatim>\<open>absorbance96_mcp.py\<close> are Python functions whose whole body is
  a \<^verbatim>\<open>try: ... except Exception as e: return f"...{str(e)}"\<close> block. An exception is a
  value of type \<open>exn\<close>; a computation that may raise has type \<open>exn + 'a\<close> with \<open>Inl\<close>
  the raised exception. Python floats are modelled by the reals (exact arithmetic): there
  is no rounding, no overflow, no infinity and no NaN in this model. In particular the
  OverflowError that a float power such as \<^verbatim>\<open>x ** 2\<close> raises when its result exceeds the
  float range has no counterpart here; every general statement below about a result being
  returned is a statement about exact arithmetic.
\<close>

datatype exn =
    ValueError string
  | IndexError
  | ZeroDivisionError
  | StatisticsError string
  | NameError string
  | SdkException string
  | NonException string

text \<open>
  \<open>SdkException\<close> stands for any \<^verbatim>\<open>Exception\<close> instance raised inside the vendor SDK,
  carrying its \<^verbatim>\<open>str()\<close>; \<open>NonException\<close> for a \<^verbatim>\<open>BaseException\<close> that is not an
  \<^verbatim>\<open>Exception\<close> (KeyboardInterrupt, SystemExit), which \<^verbatim>\<open>except Exception\<close> does not catch.
\<close>

fun is_Exception :: "exn \<Rightarrow> bool" where
  "is_Exception (NonException _) = False"
| "is_Exception _ = True"

text \<open>
  \<^verbatim>\<open>str(e)\<close>, with the message texts of CPython. The offending token of a ValueError
  is shown between quotes as it stands (CPython shows its \<^verbatim>\<open>repr\<close>), and the wording for
  a division by zero is the one CPython uses for floats.
\<close>

fun exn_str :: "exn \<Rightarrow> string" where
  "exn_str (ValueError tok) = ''could not convert string to float: '' @ [CHR 0x27] @ tok @ [CHR 0x27]"
| "exn_str IndexError = ''list index out of range''"
| "exn_str ZeroDivisionError = ''float division by zero''"
| "exn_str (StatisticsError m) = m"
| "exn_str (NameError v) = ''name '' @ [CHR 0x27] @ v @ [CHR 0x27] @ '' is not defined''"
| "exn_str (SdkException m) = m"
| "exn_str (NonException m) = m"

text \<open>What a tool call hands back to its caller: a string, \<^verbatim>\<open>None\<close>, or an escaping exception.\<close>

datatype pyval = Str string | NoneVal

datatype outcome = Returned pyval | Escaped exn

definition bind :: "exn + 'a \<Rightarrow> ('a \<Rightarrow> exn + 'b) \<Rightarrow> exn + 'b" where
  "bind m f = (case m of Inl e \<Rightarrow> Inl e | Inr v \<Rightarrow> f v)"

text \<open>
  \<^verbatim>\<open>try: body  except Exception as e: return handler(e)\<close>, where the body ends in a
  \<^verbatim>\<open>return\<close> or falls off its end (\<open>NoneVal\<close>).
\<close>

definition try_except :: "exn + pyval \<Rightarrow> (exn \<Rightarrow> pyval) \<Rightarrow> outcome" where
  "try_except body handler =
     (case body of
        Inr v \<Rightarrow> Returned v
      | Inl e \<Rightarrow> if is_Exception e then Returned (handler e) else Escaped e)"

section \<open>Text: splitting, stripping, number syntax, formatting\<close>

text \<open>\<^verbatim>\<open>s.split(',')\<close>: always at least one piece; \<^verbatim>\<open>''.split(',') == ['']\<close>.\<close>

fun split_comma :: "string \<Rightarrow> string list" where
  "split_comma [] = [[]]"
| "split_comma (c # cs) =
     (if c = CHR '','' then [] # split_comma cs
      else (case split_comma cs of
              [] \<Rightarrow> [[c]]
            | p # ps \<Rightarrow> (c # p) # ps))"

text \<open>
  \<^verbatim>\<open>x.strip()\<close> removes leading and trailing whitespace. Strings are byte lists here
  (UTF-8), so the whitespace characters are the ASCII ones of \<^verbatim>\<open>str.isspace\<close>:
  0x09..0x0D, 0x1C..0x1F and the space.
\<close>

definition is_space :: "char \<Rightarrow> bool" where
  "is_space c = (let k = of_char c :: nat in (9 \<le> k \<and> k \<le> 13) \<or> (28 \<le> k \<and> k \<le> 32))"

definition strip :: "string \<Rightarrow> string" where
  "strip s = rev (dropWhile is_space (rev (dropWhile is_space s)))"

definition is_digit :: "char \<Rightarrow> bool" where
  "is_digit c = (let k = of_char c :: nat in 48 \<le> k \<and> k \<le> 57)"

definition digit_val :: "char \<Rightarrow> nat" where
  "digit_val c = of_char c - 48"

text \<open>A digit part of a Python numeric literal: digits, single underscores between digits.\<close>

fun digitpart :: "string \<Rightarrow> bool" where
  "digitpart [] = False"
| "digitpart [c] = is_digit c"
| "digitpart (c # d # cs) =
     (is_digit c \<and> (if d = CHR ''_'' then digitpart cs else digitpart (d # cs)))"

definition digits_of :: "string \<Rightarrow> nat list" where
  "digits_of s = map digit_val (filter is_digit s)"

definition nat_of_digits :: "nat list \<Rightarrow> nat" where
  "nat_of_digits ds = foldl (\<lambda>acc d. 10 * acc + d) 0 ds"

definition opt_digitpart :: "string \<Rightarrow> bool" where
  "opt_digitpart s = (s = [] \<or> digitpart s)"

text \<open>
  The finite decimal literals accepted by \<^verbatim>\<open>float()\<close>, after stripping:
  \<^verbatim>\<open>[sign] (digitpart ["." [digitpart]] | "." digitpart) [("e"|"E") [sign] digitpart]\<close>.
  The mantissa \<open>m\<close> with \<open>k\<close> fraction digits and exponent \<open>x\<close> denotes \<open>m * 10^x / 10^k\<close>.
  The literals \<^verbatim>\<open>inf\<close>, \<^verbatim>\<open>infinity\<close> and \<^verbatim>\<open>nan\<close>, which \<^verbatim>\<open>float()\<close> also accepts, denote no
  real number; this model rejects them like any other non-numeric token.
\<close>

definition split_sign :: "string \<Rightarrow> bool \<times> string" where
  "split_sign s =
     (case s of
        [] \<Rightarrow> (False, [])
      | c # cs \<Rightarrow> if c = CHR ''-'' then (True, cs)
                  else if c = CHR ''+'' then (False, cs) else (False, s))"

definition is_e :: "char \<Rightarrow> bool" where
  "is_e c = (c = CHR ''e'' \<or> c = CHR ''E'')"

definition pow10 :: "bool \<Rightarrow> nat \<Rightarrow> real" where
  "pow10 neg x = (if neg then 1 / 10 ^ x else 10 ^ x)"

definition float_literal :: "string \<Rightarrow> real option" where
  "float_literal s =
     (let (neg, body) = split_sign s;
          mant = takeWhile (\<lambda>c. \<not> is_e c) body;
          rest = dropWhile (\<lambda>c. \<not> is_e c) body;
          ipart = takeWhile (\<lambda>c. c \<noteq> CHR ''.'') mant;
          dotfrac = dropWhile (\<lambda>c. c \<noteq> CHR ''.'') mant;
          fpart = drop 1 dotfrac;
          mant_ok = (if dotfrac = [] then digitpart ipart
                     else (digitpart ipart \<and> opt_digitpart fpart)
                          \<or> (ipart = [] \<and> digitpart fpart));
          (eneg, edigits) = split_sign (drop 1 rest);
          exp_ok = (rest = [] \<or> digitpart edigits);
          m = real (nat_of_digits (digits_of (ipart @ fpart)));
          k = length (digits_of fpart);
          v = m * pow10 eneg (nat_of_digits (digits_of edigits)) / 10 ^ k
      in if mant_ok \<and> exp_ok then Some (if neg then - v else v) else None)"

text \<open>\<^verbatim>\<open>float(x.strip())\<close>: ValueError on a token that is not a number.\<close>

definition py_float :: "string \<Rightarrow> exn + real" where
  "py_float tok = (case float_literal (strip tok) of
                     None \<Rightarrow> Inl (ValueError (strip tok))
                   | Some v \<Rightarrow> Inr v)"

text \<open>
  The list comprehension \<^verbatim>\<open>[float(x.strip()) for x in s.split(',')]\<close>: tokens are
  converted left to right and the first bad one raises.
\<close>

fun map_exn :: "('a \<Rightarrow> exn + 'b) \<Rightarrow> 'a list \<Rightarrow> exn + 'b list" where
  "map_exn f [] = Inr []"
| "map_exn f (x # xs) =
     bind (f x) (\<lambda>v. bind (map_exn f xs) (\<lambda>vs. Inr (v # vs)))"

definition parse_floats :: "string \<Rightarrow> exn + real list" where
  "parse_floats s = map_exn py_float (split_comma s)"

text \<open>
  Fixed-point formatting \<^verbatim>\<open>f"{x:.<d>f}"\<close> of an exact value: the magnitude is rounded to
  \<open>d\<close> decimals (ties to even), the sign is kept even when the digits are all zero.
\<close>

definition digit_char :: "nat \<Rightarrow> char" where
  "digit_char d = ''0123456789'' ! d"

fun show_nat :: "nat \<Rightarrow> string" where
  "show_nat n = (if n < 10 then [digit_char n] else show_nat (n div 10) @ [digit_char (n mod 10)])"

declare show_nat.simps [simp del]

definition show_int :: "int \<Rightarrow> string" where
  "show_int i = (if i < 0 then ''-'' @ show_nat (nat (- i)) else show_nat (nat i))"

definition round_half_even :: "real \<Rightarrow> nat" where
  "round_half_even y =
     (let f = nat \<lfloor>y\<rfloor>; r = y - real f
      in if r < 1 / 2 then f
         else if 1 / 2 < r then f + 1
         else if even f then f else f + 1)"

definition format_fixed :: "nat \<Rightarrow> real \<Rightarrow> string" where
  "format_fixed d x =
     (let s = round_half_even (\<bar>x\<bar> * 10 ^ d);
          frac = show_nat (s mod 10 ^ d)
      in (if x < 0 then ''-'' else []) @ show_nat (s div 10 ^ d)
         @ (if d = 0 then [] else ''.'' @ replicate (d - length frac) (CHR ''0'') @ frac))"

section \<open>The statistics the calculator uses\<close>

text \<open>\<^verbatim>\<open>statistics.mean\<close>: StatisticsError on an empty sequence.\<close>

definition mean :: "real list \<Rightarrow> exn + real" where
  "mean xs = (if xs = [] then Inl (StatisticsError ''mean requires at least one data point'')
              else Inr (sum_list xs / real (length xs)))"

text \<open>\<^verbatim>\<open>statistics.stdev\<close>: the sample standard deviation, at least two points.\<close>

definition stdev :: "real list \<Rightarrow> exn + real" where
  "stdev xs = (if length xs < 2
               then Inl (StatisticsError ''variance requires at least two data points'')
               else let m = sum_list xs / real (length xs)
                    in Inr (sqrt (sum_list (map (\<lambda>x. (x - m)\<^sup>2) xs) / real (length xs - 1))))"

text \<open>Float division \<^verbatim>\<open>a / b\<close>: ZeroDivisionError when the divisor is zero.\<close>

definition py_div :: "real \<Rightarrow> real \<Rightarrow> exn + real" where
  "py_div a b = (if b = 0 then Inl ZeroDivisionError else Inr (a / b))"

text \<open>\<^verbatim>\<open>xs[i]\<close> for an index from \<^verbatim>\<open>range\<close> (never negative): IndexError past the end.\<close>

definition get :: "real list \<Rightarrow> nat \<Rightarrow> exn + real" where
  "get xs i = (if i < length xs then Inr (xs ! i) else Inl IndexError)"

text \<open>The slice \<^verbatim>\<open>xs[i:j]\<close> for \<open>0 \<le> i \<le> j\<close>; a slice never raises.\<close>

definition slice :: "'a list \<Rightarrow> nat \<Rightarrow> nat \<Rightarrow> 'a list" where
  "slice xs i j = take (j - i) (drop i xs)"

text \<open>\<^verbatim>\<open>range(start, stop, step)\<close> for a positive step.\<close>

definition range_step :: "nat \<Rightarrow> nat \<Rightarrow> nat \<Rightarrow> nat list" where
  "range_step start stop step =
     map (\<lambda>k. start + k * step) [0..<(stop - start + step - 1) div step]"

text \<open>
  \<^verbatim>\<open>sum(f(i) for i in range(n))\<close>: the generator is consumed left to right, the running
  total starts at 0, and the first element that raises ends the sum.
\<close>

fun py_sum :: "(nat \<Rightarrow> exn + real) \<Rightarrow> nat list \<Rightarrow> real \<Rightarrow> exn + real" where
  "py_sum f [] acc = Inr acc"
| "py_sum f (i # is) acc = bind (f i) (\<lambda>v. py_sum f is (acc + v))"

section \<open>calculate\_assay\_metrics\<close>

text \<open>
  Lines 111--119: \<open>n\<close> is the length of the curve sample, the two means are taken of
  \<open>conc_list\<close> (the whole list, as the source writes it) and of \<open>abs_curve\<close>, and the three
  sums run over \<^verbatim>\<open>range(n)\<close>, reading \<^verbatim>\<open>conc_list[i]\<close> before \<^verbatim>\<open>abs_curve[i]\<close>. The squares
  of lines 116, 117 and 119 are squares of reals and raise nothing; on floats they raise
  OverflowError for operands beyond about 1.3e154.
\<close>

definition r_squared :: "real list \<Rightarrow> real list \<Rightarrow> exn + real" where
  "r_squared conc_list abs_curve =
     (let n = length abs_curve in
      bind (mean conc_list) (\<lambda>mean_conc.
      bind (mean abs_curve) (\<lambda>mean_abs.
      bind (py_sum (\<lambda>i. bind (get conc_list i) (\<lambda>c. bind (get abs_curve i) (\<lambda>a.
                          Inr ((c - mean_conc) * (a - mean_abs))))) [0..<n] 0) (\<lambda>numerator.
      bind (py_sum (\<lambda>i. bind (get conc_list i) (\<lambda>c. Inr ((c - mean_conc)\<^sup>2))) [0..<n] 0) (\<lambda>denom_conc.
      bind (py_sum (\<lambda>i. bind (get abs_curve i) (\<lambda>a. Inr ((a - mean_abs)\<^sup>2))) [0..<n] 0) (\<lambda>denom_abs.
      Inr (if denom_conc * denom_abs > 0
           then numerator\<^sup>2 / (denom_conc * denom_abs) else 0)))))))"

text \<open>
  Lines 122--127: \<open>cv_percent\<close> is the expression of line 126, \<open>cv_loop\<close> the loop over
  \<^verbatim>\<open>range(0, min(len(abs_list), 18), 3)\<close> with \<open>cv_values\<close> the list built so far.
\<close>

definition cv_percent :: "real list \<Rightarrow> exn + real" where
  "cv_percent replicate_group =
     bind (stdev replicate_group) (\<lambda>sd.
     bind (mean replicate_group) (\<lambda>m.
     bind (py_div sd m) (\<lambda>q. Inr (q * 100))))"

fun cv_loop :: "real list \<Rightarrow> nat list \<Rightarrow> real list \<Rightarrow> exn + real list" where
  "cv_loop abs_list [] cv_values = Inr cv_values"
| "cv_loop abs_list (i # is) cv_values =
     (let replicate_group = slice abs_list i (i + 3) in
      if length replicate_group = 3
      then bind (cv_percent replicate_group) (\<lambda>cv.
           cv_loop abs_list is (cv_values @ [cv]))
      else cv_loop abs_list is cv_values)"

definition replicate_cvs :: "real list \<Rightarrow> exn + real list" where
  "replicate_cvs abs_list = cv_loop abs_list (range_step 0 (min (length abs_list) 18) 3) []"

text \<open>Line 129: \<^verbatim>\<open>statistics.mean(cv_values) if cv_values else 0\<close>.\<close>

definition average_cv :: "real list \<Rightarrow> exn + real" where
  "average_cv cv_values = (if cv_values \<noteq> [] then mean cv_values else Inr 0)"

text \<open>Lines 104--129: everything the \<^verbatim>\<open>try\<close> block computes before it formats the result.\<close>

definition assay_metrics :: "string \<Rightarrow> string \<Rightarrow> exn + real \<times> real" where
  "assay_metrics absorbance_values concentrations =
     bind (parse_floats absorbance_values) (\<lambda>abs_list.
     bind (parse_floats concentrations) (\<lambda>conc_list.
     let abs_curve = take 6 abs_list in
     bind (r_squared conc_list abs_curve) (\<lambda>r2.
     bind (replicate_cvs abs_list) (\<lambda>cv_values.
     bind (average_cv cv_values) (\<lambda>avg_cv.
     Inr (r2, avg_cv))))))"

text \<open>Line 131; the superscript two of the source is the UTF-8 byte pair C2 B2.\<close>

definition format_metrics :: "real \<times> real \<Rightarrow> string" where
  "format_metrics m =
     ''R'' @ [CHR 0xC2, CHR 0xB2] @ '': '' @ format_fixed 4 (fst m)
     @ '', Average CV: '' @ format_fixed 2 (snd m) @ ''%''"

definition calculate_assay_metrics :: "string \<Rightarrow> string \<Rightarrow> outcome" where
  "calculate_assay_metrics absorbance_values concentrations =
     try_except
       (bind (assay_metrics absorbance_values concentrations) (\<lambda>m. Inr (Str (format_metrics m))))
       (\<lambda>e. Str (''Error calculating metrics: '' @ exn_str e))"

text \<open>The default of the second parameter.\<close>

definition default_concentrations :: string where
  "default_concentrations = ''0,10,20,50,100,200''"

section \<open>The device tools and the vendor SDK\<close>

text \<open>
  The module \<^verbatim>\<open>byonoy_devices\<close> is an external collaborator. Its enumerations are modelled
  with the two members the source compares against and one constructor for every other
  member, which carries the member's \<^verbatim>\<open>str()\<close> for the messages.
\<close>

datatype error_code = NO_ERROR | OTHER_ERROR string

datatype slot_state = EMPTY | OTHER_STATE string

fun error_code_str :: "error_code \<Rightarrow> string" where
  "error_code_str NO_ERROR = ''ErrorCode.NO_ERROR''"
| "error_code_str (OTHER_ERROR s) = s"

fun slot_state_str :: "slot_state \<Rightarrow> string" where
  "slot_state_str EMPTY = ''DeviceSlotState.EMPTY''"
| "slot_state_str (OTHER_STATE s) = s"

type_synonym device = string

type_synonym handle = nat

text \<open>
  What one tool call can observe of the SDK. Each SDK function is called at most once
  per tool call, so its behaviour during the call is one answer per argument: a value or
  a raised exception. The measured values are carried as their \<^verbatim>\<open>str()\<close>.
\<close>

record sdk =
  available_devices_count :: "exn + nat"
  available_devices :: "exn + device list"
  open_device :: "device \<Rightarrow> exn + error_code \<times> handle option"
  device_slot_status_supported :: "handle \<Rightarrow> exn + bool"
  get_device_slot_status :: "handle \<Rightarrow> exn + error_code \<times> slot_state"
  abs96_available_wavelengths_supported :: "handle \<Rightarrow> exn + bool"
  abs96_get_available_wavelengths :: "handle \<Rightarrow> exn + error_code \<times> int list"
  Abs96SingleMeasurementConfig :: "exn + unit"
  abs96_initialize_single_measurement :: "handle \<Rightarrow> int \<Rightarrow> exn + error_code"
  abs96_single_measure :: "handle \<Rightarrow> int \<Rightarrow> exn + error_code \<times> string"

datatype sdk_call =
    Call_available_devices_count
  | Call_available_devices
  | Call_open_device
  | Call_device_slot_status_supported
  | Call_get_device_slot_status
  | Call_abs96_available_wavelengths_supported
  | Call_abs96_get_available_wavelengths
  | Call_Abs96SingleMeasurementConfig
  | Call_abs96_initialize_single_measurement
  | Call_abs96_single_measure

text \<open>A computation that may raise and that logs the SDK calls it makes, in order.\<close>

type_synonym 'a io = "(exn + 'a) \<times> sdk_call list"

definition io_return :: "'a \<Rightarrow> 'a io" where
  "io_return v = (Inr v, [])"

definition io_raise :: "exn \<Rightarrow> 'a io" where
  "io_raise e = (Inl e, [])"

definition io_call :: "sdk_call \<Rightarrow> exn + 'a \<Rightarrow> 'a io" where
  "io_call c answer = (answer, [c])"

definition io_bind :: "'a io \<Rightarrow> ('a \<Rightarrow> 'b io) \<Rightarrow> 'b io" where
  "io_bind m f =
     (case fst m of
        Inl e \<Rightarrow> (Inl e, snd m)
      | Inr v \<Rightarrow> (fst (f v), snd m @ snd (f v)))"

text \<open>
  The module-level name \<^verbatim>\<open>byonoy_device_handle\<close>. Line 16, which would bind it to
  \<^verbatim>\<open>None\<close> at import, is commented out in the source, so the name starts unbound; it is
  bound only by the assignment on line 31.
\<close>

datatype binding = Unbound | Bound "handle option"

definition initial_binding :: binding where
  "initial_binding = Unbound"

fun handle_str :: "handle option \<Rightarrow> string" where
  "handle_str None = ''None''"
| "handle_str (Some h) = show_nat h"

text \<open>The \<^verbatim>\<open>str()\<close> of a list of integers, as in \<^verbatim>\<open>[450, 600]\<close>.\<close>

fun join_comma :: "string list \<Rightarrow> string" where
  "join_comma [] = []"
| "join_comma [s] = s"
| "join_comma (s # t # ts) = s @ '', '' @ join_comma (t # ts)"

definition int_list_str :: "int list \<Rightarrow> string" where
  "int_list_str ws = ''['' @ join_comma (map show_int ws) @ '']''"

text \<open>Lines 23--34. The result is the returned value and the binding of the global.\<close>

definition connect_body :: "sdk \<Rightarrow> binding \<Rightarrow> (pyval \<times> binding) io" where
  "connect_body s g =
     io_bind (io_call Call_available_devices_count (available_devices_count s)) (\<lambda>num_devices.
     if num_devices = 0 then io_return (Str ''No Byonoy devices found'', g)
     else
     io_bind (io_call Call_available_devices (available_devices s)) (\<lambda>devices.
     io_bind (case devices of [] \<Rightarrow> io_raise IndexError | d # _ \<Rightarrow> io_return d) (\<lambda>d0.
     io_bind (io_call Call_open_device (open_device s d0)) (\<lambda>(result_code, device_handle).
     if result_code = NO_ERROR
     then io_return (Str (''Connected to Byonoy device successfully. Handle: ''
                          @ handle_str device_handle), Bound device_handle)
     else io_return (Str (''Failed to connect: '' @ error_code_str result_code), g)))))"

text \<open>
  A tool call yields its outcome, the binding of the global afterwards and the SDK calls
  it made. The assignment on line 31 is followed only by the \<^verbatim>\<open>return\<close>, so a call that
  raises leaves the binding as it was.
\<close>

definition connect_byonoy_reader :: "sdk \<Rightarrow> binding \<Rightarrow> outcome \<times> binding \<times> sdk_call list" where
  "connect_byonoy_reader s g =
     (let r = connect_body s g in
      (try_except (map_sum id fst (fst r)) (\<lambda>e. Str (''Error: '' @ exn_str e)),
       (case fst r of Inl e \<Rightarrow> g | Inr vg \<Rightarrow> snd vg),
       snd r))"

text \<open>The bytes of the three pictographs the messages start with.\<close>

definition cross_mark :: string where
  "cross_mark = [CHR 0xE2, CHR 0x9D, CHR 0x8C]"

definition check_mark :: string where
  "check_mark = [CHR 0xE2, CHR 0x9C, CHR 0x85]"

definition bar_chart :: string where
  "bar_chart = [CHR 0xF0, CHR 0x9F, CHR 0x93, CHR 0x8A]"

text \<open>
  Lines 54--57 and 76--79: the slot check shared by both steps. It answers the message to
  return early with, if any; \<open>want_empty\<close> tells which state is the acceptable one.
\<close>

definition slot_check :: "sdk \<Rightarrow> handle \<Rightarrow> bool \<Rightarrow> string option io" where
  "slot_check s h want_empty =
     io_bind (io_call Call_device_slot_status_supported (device_slot_status_supported s h)) (\<lambda>supported.
     if supported
     then io_bind (io_call Call_get_device_slot_status (get_device_slot_status s h)) (\<lambda>(result_code, slot_status).
          if want_empty
          then io_return (if result_code = NO_ERROR \<and> slot_status \<noteq> EMPTY
                          then Some (cross_mark @ '' Remove plate first - slot status: ''
                                     @ slot_state_str slot_status)
                          else None)
          else io_return (if result_code = NO_ERROR \<and> slot_status = EMPTY
                          then Some (cross_mark @ '' No plate detected. Please insert plate first.'')
                          else None))
     else io_return None)"

text \<open>Lines 52--72; the \<^verbatim>\<open>if\<close> on line 60 has no \<^verbatim>\<open>else\<close>, so its false branch falls off the
  end of the function.\<close>

definition initialize_step :: "sdk \<Rightarrow> handle \<Rightarrow> int \<Rightarrow> pyval io" where
  "initialize_step s h wavelength =
     io_bind (slot_check s h True) (\<lambda>early.
     case early of
       Some msg \<Rightarrow> io_return (Str msg)
     | None \<Rightarrow>
     io_bind (io_call Call_abs96_available_wavelengths_supported
                (abs96_available_wavelengths_supported s h)) (\<lambda>supported.
     if supported
     then io_bind (io_call Call_abs96_get_available_wavelengths
                     (abs96_get_available_wavelengths s h)) (\<lambda>(result_code, abs_wavelengths).
          if wavelength \<notin> set abs_wavelengths
          then io_return (Str (''Wavelength '' @ show_int wavelength @ '' not available. Available: ''
                               @ int_list_str abs_wavelengths))
          else
          io_bind (io_call Call_Abs96SingleMeasurementConfig (Abs96SingleMeasurementConfig s)) (\<lambda>config.
          io_bind (io_call Call_abs96_initialize_single_measurement
                     (abs96_initialize_single_measurement s h wavelength)) (\<lambda>result_code.
          if result_code = NO_ERROR
          then io_return (Str (check_mark @ '' Measurement initialized at '' @ show_int wavelength
                               @ ''nm. INSERT PLATE NOW, then run with step='' @ [CHR 0x27]
                               @ ''measure'' @ [CHR 0x27]))
          else io_return (Str (cross_mark @ '' Initialize failed: '' @ error_code_str result_code)))))
     else io_return NoneVal))"

text \<open>Lines 74--89.\<close>

definition measure_step :: "sdk \<Rightarrow> handle \<Rightarrow> int \<Rightarrow> pyval io" where
  "measure_step s h wavelength =
     io_bind (slot_check s h False) (\<lambda>early.
     case early of
       Some msg \<Rightarrow> io_return (Str msg)
     | None \<Rightarrow>
     io_bind (io_call Call_Abs96SingleMeasurementConfig (Abs96SingleMeasurementConfig s)) (\<lambda>config.
     io_bind (io_call Call_abs96_single_measure (abs96_single_measure s h wavelength)) (\<lambda>(result_code, values).
     if result_code = NO_ERROR
     then io_return (Str (bar_chart @ '' Absorbance values at '' @ show_int wavelength @ ''nm: '' @ values))
     else io_return (Str (cross_mark @ '' Measurement failed: '' @ error_code_str result_code
                          @ ''. Check plate positioning.'')))))"

text \<open>Lines 49--92. Reading the unbound global on line 49 raises NameError.\<close>

definition read_body :: "sdk \<Rightarrow> binding \<Rightarrow> int \<Rightarrow> string \<Rightarrow> pyval io" where
  "read_body s g wavelength step =
     (case g of
        Unbound \<Rightarrow> io_raise (NameError ''byonoy_device_handle'')
      | Bound None \<Rightarrow> io_return (Str ''Please connect to Byonoy reader first'')
      | Bound (Some h) \<Rightarrow>
          if step = ''initialize'' then initialize_step s h wavelength
          else if step = ''measure'' then measure_step s h wavelength
          else io_return (Str (''Invalid step. Use step='' @ [CHR 0x27] @ ''initialize'' @ [CHR 0x27]
                               @ '' or step='' @ [CHR 0x27] @ ''measure'' @ [CHR 0x27])))"

definition read_tartrazine_absorbance ::
  "sdk \<Rightarrow> binding \<Rightarrow> int \<Rightarrow> string \<Rightarrow> outcome \<times> sdk_call list" where
  "read_tartrazine_absorbance s g wavelength step =
     (let r = read_body s g wavelength step in
      (try_except (fst r) (\<lambda>e. Str (''Error: '' @ exn_str e)), snd r))"

text \<open>
  A reader that answers every query, reports no slot status and no wavelength list, and
  opens as handle 1; used to run the device tools on a concrete SDK behaviour.
\<close>

definition plain_reader :: sdk where
  "plain_reader =
     \<lparr> available_devices_count = Inr 1,
       available_devices = Inr [''abs96''],
       open_device = (\<lambda>d. Inr (NO_ERROR, Some 1)),
       device_slot_status_supported = (\<lambda>h. Inr False),
       get_device_slot_status = (\<lambda>h. Inr (NO_ERROR, EMPTY)),
       abs96_available_wavelengths_supported = (\<lambda>h. Inr False),
       abs96_get_available_wavelengths = (\<lambda>h. Inr (NO_ERROR, [])),
       Abs96SingleMeasurementConfig = Inr (),
       abs96_initialize_single_measurement = (\<lambda>h w. Inr NO_ERROR),
       abs96_single_measure = (\<lambda>h w. Inr (NO_ERROR, ''[]'')) \<rparr>"

section \<open>Auxiliary facts\<close>

lemmas parse_simps = parse_floats_def py_float_def float_literal_def strip_def is_space_def
  is_digit_def digit_val_def digits_of_def nat_of_digits_def opt_digitpart_def split_sign_def
  is_e_def pow10_def

lemma replicate_numeral_Cons: "replicate (numeral k) x = x # replicate (pred_numeral k) x"
  by (simp add: numeral_eq_Suc)

lemmas format_simps = format_metrics_def format_fixed_def round_half_even_def show_nat.simps
  digit_char_def replicate_numeral_Cons

lemma bind_Inr [simp]: "bind (Inr v) f = f v"
  by (simp add: bind_def)

lemma bind_Inl [simp]: "bind (Inl e) f = Inl e"
  by (simp add: bind_def)

lemma bind_eq_Inl:
  "bind m f = Inl e \<Longrightarrow> m = Inl e \<or> (\<exists>v. m = Inr v \<and> f v = Inl e)"
  by (cases m) simp_all

lemma py_sum_total:
  "(\<And>i. i \<in> set js \<Longrightarrow> f i = Inr (g i)) \<Longrightarrow>
   py_sum f js acc = Inr (acc + sum_list (map g js))"
  by (induction js arbitrary: acc) (simp_all add: add.assoc)

lemma sum_list_nth_upt: "(\<Sum>i\<leftarrow>[0..<length xs]. xs ! i) = sum_list (xs :: real list)"
proof -
  have "map (\<lambda>i. xs ! i) [0..<length xs] = xs" by (rule map_nth)
  then show ?thesis by simp
qed

text \<open>The value of lines 111--119 when no index is out of range.\<close>

lemma r_squared_closed:
  assumes "ys \<noteq> []" and "length ys \<le> length cs"
  shows "r_squared cs ys =
     Inr (let mc = sum_list cs / real (length cs);
              ma = sum_list ys / real (length ys);
              num = (\<Sum>i\<leftarrow>[0..<length ys]. (cs ! i - mc) * (ys ! i - ma));
              dc = (\<Sum>i\<leftarrow>[0..<length ys]. (cs ! i - mc)\<^sup>2);
              da = (\<Sum>i\<leftarrow>[0..<length ys]. (ys ! i - ma)\<^sup>2)
          in if dc * da > 0 then num\<^sup>2 / (dc * da) else 0)"
proof -
  from assms have cs: "cs \<noteq> []" by auto
  let ?mc = "sum_list cs / real (length cs)"
  let ?ma = "sum_list ys / real (length ys)"
  have s1: "py_sum (\<lambda>i. bind (get cs i) (\<lambda>c. bind (get ys i) (\<lambda>a. Inr ((c - ?mc) * (a - ?ma)))))
              [0..<length ys] 0
            = Inr (0 + (\<Sum>i\<leftarrow>[0..<length ys]. (cs ! i - ?mc) * (ys ! i - ?ma)))"
    using assms by (intro py_sum_total) (simp add: get_def)
  have s2: "py_sum (\<lambda>i. bind (get cs i) (\<lambda>c. Inr ((c - ?mc)\<^sup>2))) [0..<length ys] 0
            = Inr (0 + (\<Sum>i\<leftarrow>[0..<length ys]. (cs ! i - ?mc)\<^sup>2))"
    using assms by (intro py_sum_total) (simp add: get_def)
  have s3: "py_sum (\<lambda>i. bind (get ys i) (\<lambda>a. Inr ((a - ?ma)\<^sup>2))) [0..<length ys] 0
            = Inr (0 + (\<Sum>i\<leftarrow>[0..<length ys]. (ys ! i - ?ma)\<^sup>2))"
    by (intro py_sum_total) (simp add: get_def)
  show ?thesis
    unfolding r_squared_def Let_def
    using cs assms(1) by (simp add: mean_def s1 s2 s3)
qed

text \<open>The Cauchy--Schwarz inequality for sums over a list of indices.\<close>

lemma sum_list_squares_nonneg: "0 \<le> (\<Sum>i\<leftarrow>js. (y i :: real)\<^sup>2)"
  by (rule sum_list_nonneg) auto

lemma sum_list_squares_zero:
  assumes "(\<Sum>i\<leftarrow>js. (y i :: real)\<^sup>2) = 0"
  shows "(\<Sum>i\<leftarrow>js. x i * y i) = 0"
  using assms
proof (induction js)
  case Nil
  then show ?case by simp
next
  case (Cons j js)
  have a: "0 \<le> (y j)\<^sup>2" by simp
  have b: "0 \<le> (\<Sum>i\<leftarrow>js. (y i)\<^sup>2)" by (rule sum_list_squares_nonneg)
  from Cons.prems have "(y j)\<^sup>2 + (\<Sum>i\<leftarrow>js. (y i)\<^sup>2) = 0" by simp
  with a b have "(y j)\<^sup>2 = 0" and "(\<Sum>i\<leftarrow>js. (y i)\<^sup>2) = 0" by linarith+
  with Cons.IH show ?case by simp
qed

lemma cauchy_schwarz_list:
  fixes x y :: "nat \<Rightarrow> real"
  shows "(\<Sum>i\<leftarrow>js. x i * y i)\<^sup>2 \<le> (\<Sum>i\<leftarrow>js. (x i)\<^sup>2) * (\<Sum>i\<leftarrow>js. (y i)\<^sup>2)"
proof -
  let ?A = "\<Sum>i\<leftarrow>js. (x i)\<^sup>2" and ?B = "\<Sum>i\<leftarrow>js. (y i)\<^sup>2" and ?C = "\<Sum>i\<leftarrow>js. x i * y i"
  have B0: "0 \<le> ?B" by (rule sum_list_squares_nonneg)
  show ?thesis
  proof (cases "?B = 0")
    case True
    then have "?C = 0" by (rule sum_list_squares_zero)
    with True show ?thesis by simp
  next
    case False
    with B0 have Bpos: "0 < ?B" by simp
    have "0 \<le> (\<Sum>i\<leftarrow>js. (?B * x i - ?C * y i)\<^sup>2)" by (rule sum_list_squares_nonneg)
    also have "(\<Sum>i\<leftarrow>js. (?B * x i - ?C * y i)\<^sup>2)
             = (\<Sum>i\<leftarrow>js. ?B\<^sup>2 * (x i)\<^sup>2 + (- 2 * ?B * ?C) * (x i * y i) + ?C\<^sup>2 * (y i)\<^sup>2)"
      by (rule arg_cong [where f = sum_list], rule map_cong) (simp_all add: power2_eq_square algebra_simps)
    also have "\<dots> = ?B\<^sup>2 * ?A + (- 2 * ?B * ?C) * ?C + ?C\<^sup>2 * ?B"
      by (simp only: sum_list_addf sum_list_const_mult)
    also have "\<dots> = ?B * (?A * ?B - ?C\<^sup>2)"
      by (simp add: power2_eq_square algebra_simps)
    finally have "0 \<le> ?B * (?A * ?B - ?C\<^sup>2)" .
    with Bpos have "0 \<le> ?A * ?B - ?C\<^sup>2" by (simp add: zero_le_mult_iff)
    then show ?thesis by simp
  qed
qed

lemma r_squared_range:
  assumes "ys \<noteq> []" and "length ys \<le> length cs"
  shows "\<exists>r. r_squared cs ys = Inr r \<and> 0 \<le> r \<and> r \<le> 1"
proof -
  let ?mc = "sum_list cs / real (length cs)"
  let ?ma = "sum_list ys / real (length ys)"
  let ?num = "\<Sum>i\<leftarrow>[0..<length ys]. (cs ! i - ?mc) * (ys ! i - ?ma)"
  let ?dc = "\<Sum>i\<leftarrow>[0..<length ys]. (cs ! i - ?mc)\<^sup>2"
  let ?da = "\<Sum>i\<leftarrow>[0..<length ys]. (ys ! i - ?ma)\<^sup>2"
  let ?r = "if ?dc * ?da > 0 then ?num\<^sup>2 / (?dc * ?da) else 0"
  have eq: "r_squared cs ys = Inr ?r"
    using r_squared_closed [OF assms] by (simp add: Let_def)
  have cs: "?num\<^sup>2 \<le> ?dc * ?da" by (rule cauchy_schwarz_list)
  have "0 \<le> ?r" by simp
  moreover have "?r \<le> 1" using cs by (simp add: divide_le_eq)
  ultimately show ?thesis using eq by blast
qed

text \<open>The loop of lines 122--127 visits exactly the complete triplets.\<close>

lemma cv_loop_groups:
  "cv_loop xs js acc =
     bind (map_exn cv_percent (filter (\<lambda>g. length g = 3) (map (\<lambda>i. slice xs i (i + 3)) js)))
          (\<lambda>cvs. Inr (acc @ cvs))"
proof (induction js arbitrary: acc)
  case Nil
  then show ?case by simp
next
  case (Cons j js)
  show ?case
  proof (cases "length (slice xs j (j + 3)) = 3")
    case True
    show ?thesis
    proof (cases "cv_percent (slice xs j (j + 3))")
      case (Inl e)
      with True show ?thesis by simp
    next
      case (Inr cv)
      show ?thesis
      proof (cases "map_exn cv_percent (filter (\<lambda>g. length g = 3) (map (\<lambda>i. slice xs i (i + 3)) js))")
        case (Inl e)
        with True Inr Cons.IH [of "acc @ [cv]"] show ?thesis by simp
      next
        case r: (Inr cvs)
        with True Inr Cons.IH [of "acc @ [cv]"] show ?thesis by simp
      qed
    qed
  next
    case False
    with Cons.IH [of acc] show ?thesis by simp
  qed
qed

lemma filter_upt_less: "filter (\<lambda>k. k < a) [0..<b] = [0..<min a b]"
proof (induction b)
  case 0
  then show ?case by simp
next
  case (Suc b)
  then show ?case by (cases "Suc b \<le> a") (auto simp: min_def)
qed

lemma slice_triple:
  assumes "3 * k + 3 \<le> length xs"
  shows "slice xs (3 * k) (3 * k + 3) = [xs ! (3 * k), xs ! (3 * k + 1), xs ! (3 * k + 2)]"
proof -
  have "take 3 (drop (3 * k) xs) = [xs ! (3 * k), xs ! (3 * k + 1), xs ! (3 * k + 2)]"
    using assms by (intro nth_equalityI) (auto simp: nth_Cons split: nat.splits)
  then show ?thesis by (simp add: slice_def)
qed

lemma length_slice3: "length (slice xs i (i + 3)) = 3 \<longleftrightarrow> i + 3 \<le> length xs"
  by (auto simp: slice_def)

lemma complete_groups:
  "filter (\<lambda>g. length g = 3) (map (\<lambda>i. slice xs i (i + 3)) (range_step 0 (min (length xs) 18) 3))
   = map (\<lambda>k. [xs ! (3 * k), xs ! (3 * k + 1), xs ! (3 * k + 2)]) [0..<min (length xs) 18 div 3]"
proof -
  let ?m = "min (length xs) 18"
  let ?K = "(?m + 2) div 3"
  have key: "\<And>k. k < ?K \<Longrightarrow> (3 * k + 3 \<le> length xs) = (k < ?m div 3)" by (auto simp: min_def)
  have "filter (\<lambda>g. length g = 3) (map (\<lambda>i. slice xs i (i + 3)) (range_step 0 ?m 3))
      = map (\<lambda>k. slice xs (3 * k) (3 * k + 3)) (filter (\<lambda>k. 3 * k + 3 \<le> length xs) [0..<?K])"
    by (simp add: range_step_def filter_map o_def length_slice3 mult.commute)
  also have "filter (\<lambda>k. 3 * k + 3 \<le> length xs) [0..<?K] = filter (\<lambda>k. k < ?m div 3) [0..<?K]"
    by (rule filter_cong) (simp_all add: key)
  also have "\<dots> = [0..<?m div 3]"
    by (simp add: filter_upt_less min_def)
  also have "map (\<lambda>k. slice xs (3 * k) (3 * k + 3)) [0..<?m div 3]
           = map (\<lambda>k. [xs ! (3 * k), xs ! (3 * k + 1), xs ! (3 * k + 2)]) [0..<?m div 3]"
    by (rule map_cong) (auto simp: slice_triple)
  finally show ?thesis .
qed

lemma bind_Inr_id: "bind m (\<lambda>v. Inr v) = m"
  by (cases m) simp_all

lemma replicate_cvs_groups:
  "replicate_cvs xs =
     map_exn cv_percent
       (map (\<lambda>k. [xs ! (3 * k), xs ! (3 * k + 1), xs ! (3 * k + 2)]) [0..<min (length xs) 18 div 3])"
  by (simp add: replicate_cvs_def cv_loop_groups complete_groups bind_Inr_id)

text \<open>A constant series on either side gives the value 0.\<close>

lemma sum_list_upt_const: "(\<Sum>i\<leftarrow>[0..<n]. (c :: real)) = real n * c"
  by (induction n) (simp_all add: algebra_simps)

lemma sum_list_centered:
  assumes "ys \<noteq> []"
  shows "(\<Sum>i\<leftarrow>[0..<length ys]. ys ! i - sum_list ys / real (length ys)) = (0 :: real)"
proof -
  have "(\<Sum>i\<leftarrow>[0..<length ys]. ys ! i - sum_list ys / real (length ys))
      = (\<Sum>i\<leftarrow>[0..<length ys]. ys ! i) - (\<Sum>i\<leftarrow>[0..<length ys]. sum_list ys / real (length ys))"
    by (simp add: sum_list_subtractf)
  also have "\<dots> = sum_list ys - real (length ys) * (sum_list ys / real (length ys))"
    by (simp only: sum_list_nth_upt sum_list_upt_const)
  also have "\<dots> = 0" using assms by simp
  finally show ?thesis .
qed

lemma r_squared_zero_variance:
  assumes ne: "ys \<noteq> []" and le: "length ys \<le> length cs"
      and const: "(\<forall>i<length ys. cs ! i = k) \<or> (\<forall>i<length ys. ys ! i = k)"
  shows "r_squared cs ys = Inr 0"
proof -
  let ?n = "length ys"
  let ?mc = "sum_list cs / real (length cs)"
  let ?ma = "sum_list ys / real ?n"
  let ?num = "\<Sum>i\<leftarrow>[0..<?n]. (cs ! i - ?mc) * (ys ! i - ?ma)"
  let ?dc = "\<Sum>i\<leftarrow>[0..<?n]. (cs ! i - ?mc)\<^sup>2"
  let ?da = "\<Sum>i\<leftarrow>[0..<?n]. (ys ! i - ?ma)\<^sup>2"
  have eq: "r_squared cs ys = Inr (if ?dc * ?da > 0 then ?num\<^sup>2 / (?dc * ?da) else 0)"
    using r_squared_closed [OF ne le] by (simp add: Let_def)
  from const show ?thesis
  proof
    assume c: "\<forall>i<?n. cs ! i = k"
    have "?num = (\<Sum>i\<leftarrow>[0..<?n]. (k - ?mc) * (ys ! i - ?ma))"
      by (rule arg_cong [where f = sum_list], rule map_cong) (simp_all add: c)
    also have "\<dots> = (k - ?mc) * (\<Sum>i\<leftarrow>[0..<?n]. ys ! i - ?ma)"
      by (simp only: sum_list_const_mult)
    also have "\<dots> = 0" by (simp add: sum_list_centered [OF ne])
    finally have "?num = 0" .
    with eq show ?thesis by simp
  next
    assume a: "\<forall>i<?n. ys ! i = k"
    have "map (\<lambda>i. ys ! i) [0..<?n] = map (\<lambda>i. k) [0..<?n]"
      by (rule map_cong) (simp_all add: a)
    then have "(\<Sum>i\<leftarrow>[0..<?n]. ys ! i) = (\<Sum>i\<leftarrow>[0..<?n]. k)" by (rule arg_cong)
    then have "sum_list ys = real ?n * k" by (simp only: sum_list_nth_upt sum_list_upt_const)
    with ne have ma: "?ma = k" by simp
    have "?da = (\<Sum>i\<leftarrow>[0..<?n]. 0)"
      by (rule arg_cong [where f = sum_list], rule map_cong) (simp_all add: a ma)
    then have "?da = 0" by simp
    with eq show ?thesis by simp
  qed
qed




text \<open>Only instances of \<^verbatim>\<open>Exception\<close> are raised inside the \<^verbatim>\<open>try\<close> block of the calculator.\<close>

lemma map_exn_raises:
  "(\<And>x e. f x = Inl e \<Longrightarrow> is_Exception e) \<Longrightarrow> map_exn f xs = Inl e \<Longrightarrow> is_Exception e"
proof (induction xs arbitrary: e)
  case Nil
  then show ?case by simp
next
  case (Cons x xs)
  then show ?case
    by (cases "f x"; cases "map_exn f xs") auto
qed

lemma py_sum_raises:
  "(\<And>i e. f i = Inl e \<Longrightarrow> is_Exception e) \<Longrightarrow> py_sum f js acc = Inl e \<Longrightarrow> is_Exception e"
proof (induction js arbitrary: acc)
  case Nil
  then show ?case by simp
next
  case (Cons j js)
  then show ?case by (cases "f j") auto
qed

lemma py_float_raises: "py_float x = Inl e \<Longrightarrow> is_Exception e"
  by (auto simp: py_float_def split: option.splits)

lemma parse_floats_raises: "parse_floats s = Inl e \<Longrightarrow> is_Exception e"
  unfolding parse_floats_def by (erule map_exn_raises [rotated]) (rule py_float_raises)

lemma mean_raises: "mean xs = Inl e \<Longrightarrow> is_Exception e"
  by (auto simp: mean_def split: if_splits)

lemma stdev_raises: "stdev xs = Inl e \<Longrightarrow> is_Exception e"
  by (auto simp: stdev_def Let_def split: if_splits)

lemma py_div_raises: "py_div a b = Inl e \<Longrightarrow> is_Exception e"
  by (auto simp: py_div_def split: if_splits)

lemma get_raises: "get xs i = Inl e \<Longrightarrow> is_Exception e"
  by (auto simp: get_def split: if_splits)

lemma cv_percent_raises: "cv_percent g = Inl e \<Longrightarrow> is_Exception e"
  unfolding cv_percent_def
  by (auto dest!: bind_eq_Inl dest: stdev_raises mean_raises py_div_raises)

lemma replicate_cvs_raises: "replicate_cvs xs = Inl e \<Longrightarrow> is_Exception e"
  unfolding replicate_cvs_groups by (erule map_exn_raises [rotated]) (rule cv_percent_raises)

lemma average_cv_raises: "average_cv cvs = Inl e \<Longrightarrow> is_Exception e"
  by (auto simp: average_cv_def dest: mean_raises split: if_splits)

lemma r_squared_raises: "r_squared cs ys = Inl e \<Longrightarrow> is_Exception e"
  unfolding r_squared_def Let_def
  by (auto dest!: bind_eq_Inl dest: mean_raises get_raises
           elim!: py_sum_raises [rotated])

lemma assay_metrics_raises: "assay_metrics a c = Inl e \<Longrightarrow> is_Exception e"
  unfolding assay_metrics_def Let_def
  by (auto dest!: bind_eq_Inl
           dest: parse_floats_raises r_squared_raises replicate_cvs_raises average_cv_raises)

lemma calculate_cases:
  "calculate_assay_metrics a c =
     (case assay_metrics a c of
        Inl e \<Rightarrow> Returned (Str (''Error calculating metrics: '' @ exn_str e))
      | Inr m \<Rightarrow> Returned (Str (format_metrics m)))"
proof (cases "assay_metrics a c")
  case (Inl e)
  then have "is_Exception e" by (rule assay_metrics_raises)
  with Inl show ?thesis by (simp add: calculate_assay_metrics_def try_except_def)
next
  case (Inr m)
  then show ?thesis by (simp add: calculate_assay_metrics_def try_except_def)
qed

lemma assay_metrics_parsed:
  assumes "parse_floats absorbance_values = Inr abs_list"
      and "parse_floats concentrations = Inr conc_list"
  shows "assay_metrics absorbance_values concentrations =
           bind (r_squared conc_list (take 6 abs_list)) (\<lambda>r2.
           bind (replicate_cvs abs_list) (\<lambda>cv_values.
           bind (average_cv cv_values) (\<lambda>avg_cv. Inr (r2, avg_cv))))"
  using assms by (simp add: assay_metrics_def)

lemma parse_default_concentrations:
  "parse_floats default_concentrations = Inr [0, 10, 20, 50, 100, 200]"
  by (simp add: default_concentrations_def parse_simps)

lemma parse_tenths:
  "parse_floats ''0.1,0.2,0.3,0.4,0.5,0.6'' = Inr [1 / 10, 2 / 10, 3 / 10, 4 / 10, 5 / 10, 6 / 10]"
  by (simp add: parse_simps)

lemma parse_fives: "parse_floats ''5,5,5,5,5,5,1'' = Inr [5, 5, 5, 5, 5, 5, 1]"
  by (simp add: parse_simps)

lemma parse_one_two: "parse_floats ''1,2'' = Inr [1, 2]"
  by (simp add: parse_simps)

lemma parse_seven: "parse_floats ''1,2,3,4,5,6,7'' = Inr [1, 2, 3, 4, 5, 6, 7]"
  by (simp add: parse_simps)

lemma assay_metrics_malformed:
  "assay_metrics ''a,b,c'' default_concentrations = Inl (ValueError ''a'')"
  by (simp add: assay_metrics_def parse_simps)

lemma assay_metrics_empty:
  "assay_metrics [] default_concentrations = Inl (ValueError [])"
  by (simp add: assay_metrics_def parse_simps)

lemma assay_metrics_short_concentrations:
  "assay_metrics ''1,2,3,4,5,6'' ''1,2,3'' = Inl IndexError"
  by (simp add: assay_metrics_def parse_simps r_squared_def mean_def get_def upt_rec)

lemma cv_percent_triple:
  assumes "x0 + x1 + x2 \<noteq> 0"
  shows "\<exists>cv. cv_percent [x0, x1, x2] = Inr cv"
  using assms by (simp add: cv_percent_def stdev_def mean_def py_div_def Let_def)


lemma sum_list_squares_pos:
  assumes "j \<in> set js" and "y j \<noteq> (0 :: real)"
  shows "0 < (\<Sum>i\<leftarrow>js. (y i)\<^sup>2)"
  using assms
proof (induction js)
  case Nil
  then show ?case by simp
next
  case (Cons a js)
  have rest: "0 \<le> (\<Sum>i\<leftarrow>js. (y i)\<^sup>2)" by (rule sum_list_squares_nonneg)
  show ?case
  proof (cases "a = j")
    case True
    with Cons.prems(2) have "0 < (y a)\<^sup>2" by simp
    with rest have "0 < (y a)\<^sup>2 + (\<Sum>i\<leftarrow>js. (y i)\<^sup>2)" by linarith
    then show ?thesis by simp
  next
    case False
    with Cons.prems have "j \<in> set js" by simp
    from Cons.IH [OF this Cons.prems(2)] have "0 < (\<Sum>i\<leftarrow>js. (y i)\<^sup>2)" .
    moreover have "0 \<le> (y a)\<^sup>2" by simp
    ultimately have "0 < (y a)\<^sup>2 + (\<Sum>i\<leftarrow>js. (y i)\<^sup>2)" by linarith
    then show ?thesis by simp
  qed
qed

text \<open>
  Where the concentration list is exactly as long as the curve, line 112 takes the mean of
  the paired values, and exactly linear data with a non-constant concentration series
  gives 1.
\<close>

lemma r_squared_linear_same_length:
  assumes ne: "ys \<noteq> []" and len: "length cs = length ys"
      and lin: "\<forall>i<length ys. ys ! i = k * cs ! i + c" and k: "k \<noteq> 0"
      and var: "\<exists>i<length ys. cs ! i \<noteq> sum_list cs / real (length cs)"
  shows "r_squared cs ys = Inr 1"
proof -
  let ?n = "length ys"
  let ?mc = "sum_list cs / real (length cs)"
  let ?ma = "sum_list ys / real ?n"
  let ?num = "\<Sum>i\<leftarrow>[0..<?n]. (cs ! i - ?mc) * (ys ! i - ?ma)"
  let ?dc = "\<Sum>i\<leftarrow>[0..<?n]. (cs ! i - ?mc)\<^sup>2"
  let ?da = "\<Sum>i\<leftarrow>[0..<?n]. (ys ! i - ?ma)\<^sup>2"
  from len have le: "length ys \<le> length cs" by simp
  have eq: "r_squared cs ys = Inr (if ?dc * ?da > 0 then ?num\<^sup>2 / (?dc * ?da) else 0)"
    using r_squared_closed [OF ne le] by (simp add: Let_def)
  from ne have n0: "real ?n \<noteq> 0" by simp
  have "map (\<lambda>i. ys ! i) [0..<?n] = map (\<lambda>i. k * cs ! i + c) [0..<?n]"
    by (rule map_cong) (simp_all add: lin)
  then have "(\<Sum>i\<leftarrow>[0..<?n]. ys ! i) = (\<Sum>i\<leftarrow>[0..<?n]. k * cs ! i + c)" by (rule arg_cong)
  also have "\<dots> = k * (\<Sum>i\<leftarrow>[0..<?n]. cs ! i) + real ?n * c"
    by (simp only: sum_list_addf sum_list_const_mult sum_list_upt_const)
  also have "(\<Sum>i\<leftarrow>[0..<?n]. cs ! i) = sum_list cs"
    using sum_list_nth_upt [of cs] by (simp add: len)
  finally have "sum_list ys = k * sum_list cs + real ?n * c"
    by (simp only: sum_list_nth_upt)
  then have ma: "?ma = k * ?mc + c" using n0 by (simp add: len field_simps)
  have dev: "\<And>i. i < ?n \<Longrightarrow> ys ! i - ?ma = k * (cs ! i - ?mc)"
    using lin by (simp add: ma algebra_simps)
  have "?num = (\<Sum>i\<leftarrow>[0..<?n]. k * (cs ! i - ?mc)\<^sup>2)"
    by (rule arg_cong [where f = sum_list], rule map_cong) (simp_all add: dev power2_eq_square)
  then have num: "?num = k * ?dc" by (simp only: sum_list_const_mult)
  have "?da = (\<Sum>i\<leftarrow>[0..<?n]. k\<^sup>2 * (cs ! i - ?mc)\<^sup>2)"
    by (rule arg_cong [where f = sum_list], rule map_cong) (simp_all add: dev power_mult_distrib)
  then have da: "?da = k\<^sup>2 * ?dc" by (simp only: sum_list_const_mult)
  from var obtain j where j: "j < ?n" "cs ! j - ?mc \<noteq> 0" by auto
  from j(1) have "j \<in> set [0..<?n]" by simp
  from sum_list_squares_pos [OF this, of "\<lambda>i. cs ! i - ?mc"] j(2)
  have dcpos: "0 < ?dc" by simp
  from k have k2: "0 < k\<^sup>2" by simp
  have pos: "0 < ?dc * ?da" unfolding da using dcpos k2 by simp
  have "?num\<^sup>2 / (?dc * ?da) = 1"
    unfolding num da using dcpos k by (simp add: power2_eq_square)
  with eq pos show ?thesis by simp
qed

text \<open>Runs of the calculator on concrete inputs.\<close>

lemmas r_squared_simps = r_squared_def mean_def get_def upt_rec power2_eq_square

lemmas cv_simps = replicate_cvs_def range_step_def upt_rec slice_def cv_percent_def stdev_def
  mean_def py_div_def power2_eq_square

lemmas io_simps = io_bind_def io_call_def io_return_def io_raise_def

lemma sqrt_hundredth: "sqrt (1 / 100) = 1 / 10"
  by (rule real_sqrt_unique) (simp_all add: power2_eq_square)

lemma parse_six_concentrations:
  "parse_floats ''0,10,20,50,100,200'' = Inr [0, 10, 20, 50, 100, 200]"
  by (simp add: parse_simps)



lemma parse_upto_five: "parse_floats ''0,1,2,3,4,5'' = Inr [0, 1, 2, 3, 4, 5]"
  by (simp add: parse_simps)

lemma parse_upto_five_hundred: "parse_floats ''0,1,2,3,4,5,100'' = Inr [0, 1, 2, 3, 4, 5, 100]"
  by (simp add: parse_simps)

lemma parse_odd_line: "parse_floats ''3,5,7,9,11,13'' = Inr [3, 5, 7, 9, 11, 13]"
  by (simp add: parse_simps)

lemma parse_one_to_six_fifty: "parse_floats ''1,2,3,4,5,6,50'' = Inr [1, 2, 3, 4, 5, 6, 50]"
  by (simp add: parse_simps)

lemma cvs_tenths: "replicate_cvs [1 / 10, 1 / 5, 3 / 10, 2 / 5, 1 / 2, 3 / 5] = Inr [50, 20]"
  by (simp add: cv_simps sqrt_hundredth)

lemma metrics_tenths:
  "assay_metrics ''0.1,0.2,0.3,0.4,0.5,0.6'' ''0,10,20,50,100,200'' = Inr (2535 / 3038, 35)"
proof -
  have r: "r_squared [0, 10, 20, 50, 100, 200] [1 / 10, 1 / 5, 3 / 10, 2 / 5, 1 / 2, 3 / 5]
           = Inr (2535 / 3038)"
    by (simp add: r_squared_simps)
  show ?thesis
    by (simp add: assay_metrics_parsed [OF parse_tenths parse_six_concentrations] r cvs_tenths
        average_cv_def mean_def)
qed


lemma metrics_line_six:
  "assay_metrics ''0,1,2,3,4,5'' ''0,1,2,3,4,5'' = Inr (1, 125 / 2)"
proof -
  have r: "r_squared [0, 1, 2, 3, 4, 5] [0, 1, 2, 3, 4, 5] = Inr 1"
    by (simp add: r_squared_simps)
  have c: "replicate_cvs [0, 1, 2, 3, 4, 5] = Inr [100, 25]"
    by (simp add: cv_simps)
  show ?thesis
    by (simp add: assay_metrics_parsed [OF parse_upto_five parse_upto_five] r c
        average_cv_def mean_def)
qed

lemma metrics_line_seven:
  "assay_metrics ''0,1,2,3,4,5'' ''0,1,2,3,4,5,100'' = Inr (343 / 23158, 125 / 2)"
proof -
  have r: "r_squared [0, 1, 2, 3, 4, 5, 100] [0, 1, 2, 3, 4, 5] = Inr (343 / 23158)"
    by (simp add: r_squared_simps)
  have c: "replicate_cvs [0, 1, 2, 3, 4, 5] = Inr [100, 25]"
    by (simp add: cv_simps)
  show ?thesis
    by (simp add: assay_metrics_parsed [OF parse_upto_five parse_upto_five_hundred] r c
        average_cv_def mean_def)
qed

lemma metrics_odd_line:
  "assay_metrics ''3,5,7,9,11,13'' ''1,2,3,4,5,6,50'' = Inr (1715 / 27662, 320 / 11)"
proof -
  have r: "r_squared [1, 2, 3, 4, 5, 6, 50] [3, 5, 7, 9, 11, 13] = Inr (1715 / 27662)"
    by (simp add: r_squared_simps)
  have c: "replicate_cvs [3, 5, 7, 9, 11, 13] = Inr [40, 200 / 11]"
    by (simp add: cv_simps)
  show ?thesis
    by (simp add: assay_metrics_parsed [OF parse_odd_line parse_one_to_six_fifty] r c
        average_cv_def mean_def)
qed

lemma map_exn_total:
  "(\<And>x. x \<in> set xs \<Longrightarrow> \<exists>v. f x = Inr v) \<Longrightarrow> \<exists>vs. map_exn f xs = Inr vs"
proof (induction xs)
  case Nil
  then show ?case by simp
next
  case (Cons x xs)
  from Cons.prems [of x] obtain v where v: "f x = Inr v" by auto
  from Cons.IH Cons.prems obtain vs where vs: "map_exn f xs = Inr vs" by auto
  from v vs show ?case by simp
qed

lemma average_cv_total: "\<exists>avg. average_cv cvs = Inr avg"
  by (simp add: average_cv_def mean_def)

text \<open>The CV computation raises nothing when no complete triplet sums to zero.\<close>

lemma replicate_cvs_nonzero_sums:
  assumes "list_all (\<lambda>k. xs ! (3 * k) + xs ! (3 * k + 1) + xs ! (3 * k + 2) \<noteq> 0)
             [0..<min (length xs) 18 div 3]"
  shows "\<exists>avg. bind (replicate_cvs xs) average_cv = Inr avg"
proof -
  let ?groups = "map (\<lambda>k. [xs ! (3 * k), xs ! (3 * k + 1), xs ! (3 * k + 2)])
                     [0..<min (length xs) 18 div 3]"
  have "\<And>g. g \<in> set ?groups \<Longrightarrow> \<exists>v. cv_percent g = Inr v"
  proof -
    fix g assume "g \<in> set ?groups"
    then obtain k where k: "k < min (length xs) 18 div 3"
      and g: "g = [xs ! (3 * k), xs ! (3 * k + 1), xs ! (3 * k + 2)]" by auto
    from assms k have "xs ! (3 * k) + xs ! (3 * k + 1) + xs ! (3 * k + 2) \<noteq> 0"
      by (simp add: list_all_iff)
    from cv_percent_triple [OF this] g show "\<exists>v. cv_percent g = Inr v" by simp
  qed
  from map_exn_total [of ?groups cv_percent, OF this] obtain cvs
    where "map_exn cv_percent ?groups = Inr cvs" by blast
  then have "replicate_cvs xs = Inr cvs" by (simp add: replicate_cvs_groups)
  with average_cv_total [of cvs] show ?thesis by auto
qed

lemma format_metrics_zero:
  "format_metrics (0, cv) =
     ''R'' @ [CHR 0xC2, CHR 0xB2] @ '': 0.0000, Average CV: '' @ format_fixed 2 cv @ ''%''"
proof -
  have "format_fixed 4 0 = ''0.0000''" by (simp add: format_simps)
  then show ?thesis by (simp add: format_metrics_def)
qed

lemma parse_six_zeros: "parse_floats ''0,0,0,0,0,0'' = Inr [0, 0, 0, 0, 0, 0]"
  by (simp add: parse_simps)

lemma metrics_six_zeros:
  "assay_metrics ''0,0,0,0,0,0'' default_concentrations = Inl ZeroDivisionError"
proof -
  have r: "r_squared [0, 10, 20, 50, 100, 200] [0, 0, 0, 0, 0, 0] = Inr 0"
    by (simp add: r_squared_simps)
  have c: "replicate_cvs [0, 0, 0, 0, 0, 0] = Inl ZeroDivisionError"
    by (simp add: cv_simps)
  show ?thesis
    by (simp add: assay_metrics_parsed [OF parse_six_zeros parse_default_concentrations] r c)
qed

section \<open>Verified properties\<close>

text \<open>
  C7. Whenever both inputs parse and each list has at least six entries, the R-squared computed
  by calculate\_assay\_metrics exists (lines 111--119 raise nothing) and lies in the closed
  interval from 0 to 1, in exact arithmetic; it is the first component of what the
  \<^verbatim>\<open>try\<close> block goes on to format. The bound needs no assumption on the variances: with
  a zero variance the value is 0.
\<close>

theorem r_squared_in_unit_interval:
  assumes "parse_floats absorbance_values = Inr abs_list"
      and "parse_floats concentrations = Inr conc_list"
      and "6 \<le> length abs_list" and "6 \<le> length conc_list"
  shows "\<exists>r. r_squared conc_list (take 6 abs_list) = Inr r \<and> 0 \<le> r \<and> r \<le> 1 \<and>
             assay_metrics absorbance_values concentrations =
               bind (replicate_cvs abs_list) (\<lambda>cv_values.
               bind (average_cv cv_values) (\<lambda>avg_cv. Inr (r, avg_cv)))"
proof -
  from assms(3) have ne: "take 6 abs_list \<noteq> []" by auto
  from assms(3,4) have le: "length (take 6 abs_list) \<le> length conc_list" by simp
  from r_squared_range [OF ne le] obtain r
    where r: "r_squared conc_list (take 6 abs_list) = Inr r" "0 \<le> r" "r \<le> 1" by blast
  from r(1) have "assay_metrics absorbance_values concentrations =
      bind (replicate_cvs abs_list) (\<lambda>cv_values.
      bind (average_cv cv_values) (\<lambda>avg_cv. Inr (r, avg_cv)))"
    by (simp add: assay_metrics_parsed [OF assms(1,2)])
  with r show ?thesis by blast
qed

theorem r_squared_in_unit_interval_witness:
  "parse_floats ''0.1,0.2,0.3,0.4,0.5,0.6'' = Inr [1 / 10, 2 / 10, 3 / 10, 4 / 10, 5 / 10, 6 / 10] \<and>
   parse_floats default_concentrations = Inr [0, 10, 20, 50, 100, 200] \<and>
   6 \<le> length [1 / 10, 2 / 10, 3 / 10, 4 / 10, 5 / 10, 6 / 10 :: real] \<and>
   6 \<le> length [0, 10, 20, 50, 100, 200 :: real] \<and>
   (\<exists>r. r_squared [0, 10, 20, 50, 100, 200] (take 6 [1 / 10, 2 / 10, 3 / 10, 4 / 10, 5 / 10, 6 / 10]) = Inr r
        \<and> 0 \<le> r \<and> r \<le> 1 \<and>
        assay_metrics ''0.1,0.2,0.3,0.4,0.5,0.6'' default_concentrations =
          bind (replicate_cvs [1 / 10, 2 / 10, 3 / 10, 4 / 10, 5 / 10, 6 / 10]) (\<lambda>cv_values.
          bind (average_cv cv_values) (\<lambda>avg_cv. Inr (r, avg_cv))))"
proof -
  have h3: "6 \<le> length [1 / 10, 2 / 10, 3 / 10, 4 / 10, 5 / 10, 6 / 10 :: real]" by simp
  have h4: "6 \<le> length [0, 10, 20, 50, 100, 200 :: real]" by simp
  from r_squared_in_unit_interval [OF parse_tenths parse_default_concentrations h3 h4]
    parse_tenths parse_default_concentrations h3 h4
  show ?thesis by (intro conjI)
qed

text \<open>
  C5, as stated. Six absorbances that are all 0 form a constant curve, and lines 111--119
  do give 0 for R-squared; but the first replicate triplet then has mean 0, line 126
  divides by zero, and the call returns the error message instead of a result with
  R-squared 0.
\<close>

theorem constant_zero_curve_reports_error:
  "parse_floats ''0,0,0,0,0,0'' = Inr [0, 0, 0, 0, 0, 0] \<and>
   parse_floats default_concentrations = Inr [0, 10, 20, 50, 100, 200] \<and>
   take 6 [0, 0, 0, 0, 0, 0 :: real] = replicate 6 0 \<and>
   r_squared [0, 10, 20, 50, 100, 200] (take 6 [0, 0, 0, 0, 0, 0]) = Inr 0 \<and>
   assay_metrics ''0,0,0,0,0,0'' default_concentrations = Inl ZeroDivisionError \<and>
   calculate_assay_metrics ''0,0,0,0,0,0'' default_concentrations =
     Returned (Str ''Error calculating metrics: float division by zero'')"
proof -
  have t: "take 6 [0, 0, 0, 0, 0, 0 :: real] = replicate 6 0"
    by (simp add: replicate_numeral_Cons)
  have r: "r_squared [0, 10, 20, 50, 100, 200] (take 6 [0, 0, 0, 0, 0, 0]) = Inr 0"
    by (simp add: r_squared_simps)
  have c: "calculate_assay_metrics ''0,0,0,0,0,0'' default_concentrations =
     Returned (Str ''Error calculating metrics: float division by zero'')"
    by (simp add: calculate_cases metrics_six_zeros)
  from parse_six_zeros parse_default_concentrations t r metrics_six_zeros c
  show ?thesis by (intro conjI)
qed

text \<open>
  C5, as the code behaves, in exact arithmetic (floats read as the reals they denote: no
  rounding, no overflow). When both inputs parse, each list has at least six entries, the
  first six concentrations or the first six absorbances are all equal, and no complete
  triplet among the first 18 absorbances sums to zero, then lines 111--119 yield exactly 0
  for R-squared, nothing is raised, and the call returns the metrics string whose
  R-squared field reads 0.0000.
\<close>

theorem zero_variance_r_squared_returned:
  assumes "parse_floats absorbance_values = Inr abs_list"
      and "parse_floats concentrations = Inr conc_list"
      and "6 \<le> length abs_list" and "6 \<le> length conc_list"
      and "take 6 conc_list = replicate 6 k \<or> take 6 abs_list = replicate 6 k"
      and "list_all (\<lambda>j. abs_list ! (3 * j) + abs_list ! (3 * j + 1) + abs_list ! (3 * j + 2) \<noteq> 0)
             [0..<min (length abs_list) 18 div 3]"
  shows "r_squared conc_list (take 6 abs_list) = Inr 0 \<and>
         (\<exists>avg_cv. assay_metrics absorbance_values concentrations = Inr (0, avg_cv) \<and>
            calculate_assay_metrics absorbance_values concentrations =
              Returned (Str (''R'' @ [CHR 0xC2, CHR 0xB2] @ '': 0.0000, Average CV: ''
                             @ format_fixed 2 avg_cv @ ''%'')))"
proof -
  from assms(3) have ne: "take 6 abs_list \<noteq> []" by auto
  from assms(3,4) have le: "length (take 6 abs_list) \<le> length conc_list" by simp
  from assms(3) have len: "length (take 6 abs_list) = 6" by simp
  have c: "take 6 conc_list = replicate 6 k \<Longrightarrow> \<forall>i<6. conc_list ! i = k"
  proof (intro allI impI)
    fix i :: nat assume t: "take 6 conc_list = replicate 6 k" and i: "i < 6"
    from i have "conc_list ! i = take 6 conc_list ! i" by simp
    with t i show "conc_list ! i = k" by simp
  qed
  have a: "take 6 abs_list = replicate 6 k \<Longrightarrow> \<forall>i<6. take 6 abs_list ! i = k"
    by simp
  from assms(5) c a
  have "(\<forall>i<length (take 6 abs_list). conc_list ! i = k) \<or>
        (\<forall>i<length (take 6 abs_list). take 6 abs_list ! i = k)"
    unfolding len by blast
  from r_squared_zero_variance [OF ne le this]
  have r: "r_squared conc_list (take 6 abs_list) = Inr 0" .
  from replicate_cvs_nonzero_sums [OF assms(6)] obtain avg
    where avg: "bind (replicate_cvs abs_list) average_cv = Inr avg" ..
  have m: "assay_metrics absorbance_values concentrations = Inr (0, avg)"
  proof (cases "replicate_cvs abs_list")
    case (Inl e)
    with avg show ?thesis by simp
  next
    case (Inr cvs)
    with avg have "average_cv cvs = Inr avg" by simp
    with Inr r show ?thesis by (simp add: assay_metrics_parsed [OF assms(1,2)])
  qed
  then have "calculate_assay_metrics absorbance_values concentrations =
      Returned (Str (format_metrics (0, avg)))"
    by (simp add: calculate_cases)
  then have "calculate_assay_metrics absorbance_values concentrations =
      Returned (Str (''R'' @ [CHR 0xC2, CHR 0xB2] @ '': 0.0000, Average CV: ''
                     @ format_fixed 2 avg @ ''%''))"
    by (simp only: format_metrics_zero)
  with r m show ?thesis by blast
qed

theorem zero_variance_r_squared_returned_witness:
  "parse_floats ''5,5,5,5,5,5,1'' = Inr [5, 5, 5, 5, 5, 5, 1] \<and>
   parse_floats default_concentrations = Inr [0, 10, 20, 50, 100, 200] \<and>
   6 \<le> length [5, 5, 5, 5, 5, 5, 1 :: real] \<and>
   6 \<le> length [0, 10, 20, 50, 100, 200 :: real] \<and>
   take 6 [5, 5, 5, 5, 5, 5, 1 :: real] = replicate 6 5 \<and>
   list_all (\<lambda>j. [5, 5, 5, 5, 5, 5, 1 :: real] ! (3 * j) + [5, 5, 5, 5, 5, 5, 1] ! (3 * j + 1)
                  + [5, 5, 5, 5, 5, 5, 1] ! (3 * j + 2) \<noteq> 0)
            [0..<min (length [5, 5, 5, 5, 5, 5, 1 :: real]) 18 div 3] \<and>
   r_squared [0, 10, 20, 50, 100, 200] (take 6 [5, 5, 5, 5, 5, 5, 1]) = Inr 0 \<and>
   assay_metrics ''5,5,5,5,5,5,1'' default_concentrations = Inr (0, 0) \<and>
   calculate_assay_metrics ''5,5,5,5,5,5,1'' default_concentrations =
     Returned (Str (''R'' @ [CHR 0xC2, CHR 0xB2] @ '': 0.0000, Average CV: 0.00%''))"
proof -
  have h3: "6 \<le> length [5, 5, 5, 5, 5, 5, 1 :: real]" by simp
  have h4: "6 \<le> length [0, 10, 20, 50, 100, 200 :: real]" by simp
  have h5: "take 6 [5, 5, 5, 5, 5, 5, 1 :: real] = replicate 6 5"
    by (simp add: replicate_numeral_Cons)
  have h6: "list_all (\<lambda>j. [5, 5, 5, 5, 5, 5, 1 :: real] ! (3 * j) + [5, 5, 5, 5, 5, 5, 1] ! (3 * j + 1)
                  + [5, 5, 5, 5, 5, 5, 1] ! (3 * j + 2) \<noteq> 0)
            [0..<min (length [5, 5, 5, 5, 5, 5, 1 :: real]) 18 div 3]"
    by (simp add: upt_rec)
  have cvs: "replicate_cvs [5, 5, 5, 5, 5, 5, 1] = Inr [0, 0]"
    by (simp add: cv_simps)
  from zero_variance_r_squared_returned
      [OF parse_fives parse_default_concentrations h3 h4 disjI2 [OF h5] h6]
  have r: "r_squared [0, 10, 20, 50, 100, 200] (take 6 [5, 5, 5, 5, 5, 5, 1]) = Inr 0"
    by (rule conjunct1)
  have m: "assay_metrics ''5,5,5,5,5,5,1'' default_concentrations = Inr (0, 0)"
  proof -
    from zero_variance_r_squared_returned
      [OF parse_fives parse_default_concentrations h3 h4 disjI2 [OF h5] h6]
    obtain avg where "assay_metrics ''5,5,5,5,5,5,1'' default_concentrations = Inr (0, avg)"
      by blast
    moreover from this have "avg = 0"
      by (simp add: assay_metrics_parsed [OF parse_fives parse_default_concentrations]
            cvs r [simplified] average_cv_def mean_def)
    ultimately show ?thesis by simp
  qed
  have f: "format_fixed 2 0 = ''0.00''" by (simp add: format_simps)
  from zero_variance_r_squared_returned
      [OF parse_fives parse_default_concentrations h3 h4 disjI2 [OF h5] h6] m
  have c: "calculate_assay_metrics ''5,5,5,5,5,5,1'' default_concentrations =
     Returned (Str (''R'' @ [CHR 0xC2, CHR 0xB2] @ '': 0.0000, Average CV: ''
                    @ format_fixed 2 0 @ ''%''))"
    by auto
  have c': "calculate_assay_metrics ''5,5,5,5,5,5,1'' default_concentrations =
     Returned (Str (''R'' @ [CHR 0xC2, CHR 0xB2] @ '': 0.0000, Average CV: 0.00%''))"
    unfolding c f by simp
  from parse_fives parse_default_concentrations h3 h4 h5 h6 r m c'
  show ?thesis by (intro conjI)
qed

text \<open>
  C6. For every parseable absorbance list, the CV values are those of the triplets
  at indices 3k, 3k+1, 3k+2 for k below min(len, 18) div 3, in this order: consecutive,
  non-overlapping groups of exactly three readings from index 0 within the first 18
  entries. Entries of a trailing partial group and entries from index 18 on do not occur
  on the right-hand side. With fewer than three readings there is no group, the list of
  CV values is empty and the average CV is 0.
\<close>

theorem cv_over_complete_triplets:
  assumes "parse_floats absorbance_values = Inr abs_list"
      and "parse_floats concentrations = Inr conc_list"
  shows "replicate_cvs abs_list =
           map_exn cv_percent
             (map (\<lambda>k. [abs_list ! (3 * k), abs_list ! (3 * k + 1), abs_list ! (3 * k + 2)])
                  [0..<min (length abs_list) 18 div 3]) \<and>
         assay_metrics absorbance_values concentrations =
           bind (r_squared conc_list (take 6 abs_list)) (\<lambda>r2.
           bind (replicate_cvs abs_list) (\<lambda>cv_values.
           bind (average_cv cv_values) (\<lambda>avg_cv. Inr (r2, avg_cv)))) \<and>
         (length abs_list < 3 \<longrightarrow>
            replicate_cvs abs_list = Inr [] \<and>
            assay_metrics absorbance_values concentrations =
              bind (r_squared conc_list (take 6 abs_list)) (\<lambda>r2. Inr (r2, 0)))"
proof (intro conjI impI)
  show "replicate_cvs abs_list =
           map_exn cv_percent
             (map (\<lambda>k. [abs_list ! (3 * k), abs_list ! (3 * k + 1), abs_list ! (3 * k + 2)])
                  [0..<min (length abs_list) 18 div 3])"
    by (rule replicate_cvs_groups)
  show m: "assay_metrics absorbance_values concentrations =
           bind (r_squared conc_list (take 6 abs_list)) (\<lambda>r2.
           bind (replicate_cvs abs_list) (\<lambda>cv_values.
           bind (average_cv cv_values) (\<lambda>avg_cv. Inr (r2, avg_cv))))"
    by (rule assay_metrics_parsed [OF assms])
  assume short: "length abs_list < 3"
  then have "min (length abs_list) 18 div 3 = 0" by simp
  then show e: "replicate_cvs abs_list = Inr []" by (simp add: replicate_cvs_groups)
  show "assay_metrics absorbance_values concentrations =
          bind (r_squared conc_list (take 6 abs_list)) (\<lambda>r2. Inr (r2, 0))"
    by (simp add: m e average_cv_def)
qed

theorem cv_over_complete_triplets_witness:
  "parse_floats ''1,2'' = Inr [1, 2] \<and>
   parse_floats default_concentrations = Inr [0, 10, 20, 50, 100, 200] \<and>
   length [1, 2 :: real] < 3 \<and>
   replicate_cvs [1, 2] = Inr [] \<and>
   assay_metrics ''1,2'' default_concentrations =
     bind (r_squared [0, 10, 20, 50, 100, 200] (take 6 [1, 2])) (\<lambda>r2. Inr (r2, 0)) \<and>
   replicate_cvs [1, 2, 3, 4, 5, 6, 7] = map_exn cv_percent [[1, 2, 3], [4, 5, 6]]"
proof -
  have h3: "length [1, 2 :: real] < 3" by simp
  from cv_over_complete_triplets [OF parse_one_two parse_default_concentrations] h3
  have short: "replicate_cvs [1, 2] = Inr [] \<and>
     assay_metrics ''1,2'' default_concentrations =
       bind (r_squared [0, 10, 20, 50, 100, 200] (take 6 [1, 2])) (\<lambda>r2. Inr (r2, 0))"
    by blast
  have groups: "map (\<lambda>k. [[1, 2, 3, 4, 5, 6, 7 :: real] ! (3 * k), [1, 2, 3, 4, 5, 6, 7] ! (3 * k + 1),
                          [1, 2, 3, 4, 5, 6, 7] ! (3 * k + 2)])
                    [0..<min (length [1, 2, 3, 4, 5, 6, 7 :: real]) 18 div 3]
                = [[1, 2, 3], [4, 5, 6]]"
    by (simp add: upt_rec)
  from cv_over_complete_triplets [OF parse_seven parse_default_concentrations]
  have long: "replicate_cvs [1, 2, 3, 4, 5, 6, 7] = map_exn cv_percent [[1, 2, 3], [4, 5, 6]]"
    unfolding groups by (rule conjunct1)
  from short long parse_one_two parse_default_concentrations h3
  show ?thesis by (intro conjI) (erule conjE, assumption)+
qed

text \<open>
  C9. For every pair of input strings, calculate\_assay\_metrics returns a string and no
  exception escapes; whenever parsing or arithmetic inside the \<^verbatim>\<open>try\<close> block raises
  \<open>e\<close>, the returned string is the error message built from \<open>e\<close>. The witness runs the
  malformed input \<^verbatim>\<open>a,b,c\<close>, the empty string and a concentration list too short for
  the curve.
\<close>

theorem calculate_never_raises:
  "(\<exists>s. calculate_assay_metrics absorbance_values concentrations = Returned (Str s)) \<and>
   (\<forall>e. assay_metrics absorbance_values concentrations = Inl e \<longrightarrow>
        calculate_assay_metrics absorbance_values concentrations =
          Returned (Str (''Error calculating metrics: '' @ exn_str e)))"
proof (cases "assay_metrics absorbance_values concentrations")
  case (Inl e)
  then have "is_Exception e" by (rule assay_metrics_raises)
  with Inl have "calculate_assay_metrics absorbance_values concentrations =
      Returned (Str (''Error calculating metrics: '' @ exn_str e))"
    by (simp add: calculate_assay_metrics_def try_except_def)
  with Inl show ?thesis by simp
next
  case (Inr m)
  then have "calculate_assay_metrics absorbance_values concentrations =
      Returned (Str (format_metrics m))"
    by (simp add: calculate_assay_metrics_def try_except_def)
  with Inr show ?thesis by simp
qed

theorem calculate_never_raises_witness:
  "assay_metrics ''a,b,c'' default_concentrations = Inl (ValueError ''a'') \<and>
   calculate_assay_metrics ''a,b,c'' default_concentrations =
     Returned (Str (''Error calculating metrics: could not convert string to float: ''
                   @ [CHR 0x27] @ ''a'' @ [CHR 0x27])) \<and>
   assay_metrics [] default_concentrations = Inl (ValueError []) \<and>
   calculate_assay_metrics [] default_concentrations =
     Returned (Str (''Error calculating metrics: could not convert string to float: ''
                   @ [CHR 0x27, CHR 0x27])) \<and>
   assay_metrics ''1,2,3,4,5,6'' ''1,2,3'' = Inl IndexError \<and>
   calculate_assay_metrics ''1,2,3,4,5,6'' ''1,2,3'' =
     Returned (Str ''Error calculating metrics: list index out of range'')"
proof -
  from calculate_never_raises [of "''a,b,c''" default_concentrations] assay_metrics_malformed
  have a: "calculate_assay_metrics ''a,b,c'' default_concentrations =
     Returned (Str (''Error calculating metrics: '' @ exn_str (ValueError ''a'')))" by blast
  from calculate_never_raises [of "[]" default_concentrations] assay_metrics_empty
  have b: "calculate_assay_metrics [] default_concentrations =
     Returned (Str (''Error calculating metrics: '' @ exn_str (ValueError [])))" by blast
  from calculate_never_raises [of "''1,2,3,4,5,6''" "''1,2,3''"] assay_metrics_short_concentrations
  have c: "calculate_assay_metrics ''1,2,3,4,5,6'' ''1,2,3'' =
     Returned (Str (''Error calculating metrics: '' @ exn_str IndexError))" by blast
  from a b c assay_metrics_malformed assay_metrics_empty assay_metrics_short_concentrations
  show ?thesis by simp
qed

text \<open>
  C2, the scenario as stated. On \<^verbatim>\<open>"0.1,0.2,0.3,0.4,0.5,0.6"\<close> with
  \<^verbatim>\<open>"0,10,20,50,100,200"\<close> the average CV is not 0: the loop of line 123 starts at
  index 0, so the six curve values themselves form two complete triplets.
\<close>

theorem average_cv_of_tenths_not_zero:
  "map_sum id snd (assay_metrics ''0.1,0.2,0.3,0.4,0.5,0.6'' ''0,10,20,50,100,200'') = Inr 35 \<and>
   map_sum id snd (assay_metrics ''0.1,0.2,0.3,0.4,0.5,0.6'' ''0,10,20,50,100,200'') \<noteq> Inr 0"
  by (simp add: metrics_tenths)

text \<open>
  C2, as the code behaves. On that input the R-squared is 2535/3038, strictly below 1, the
  two triplets have CV 50 and 20, the average CV is 35, and the returned string reports
  0.8344 and 35.00%.
\<close>

theorem scenario_tenths:
  "assay_metrics ''0.1,0.2,0.3,0.4,0.5,0.6'' ''0,10,20,50,100,200'' = Inr (2535 / 3038, 35) \<and>
   (2535 / 3038 :: real) < 1 \<and>
   replicate_cvs [1 / 10, 2 / 10, 3 / 10, 4 / 10, 5 / 10, 6 / 10] = Inr [50, 20] \<and>
   calculate_assay_metrics ''0.1,0.2,0.3,0.4,0.5,0.6'' ''0,10,20,50,100,200'' =
     Returned (Str (''R'' @ [CHR 0xC2, CHR 0xB2] @ '': 0.8344, Average CV: 35.00%''))"
proof -
  have f: "format_metrics (2535 / 3038, 35) = ''R'' @ [CHR 0xC2, CHR 0xB2] @ '': 0.8344, Average CV: 35.00%''"
    by (simp add: format_simps)
  show ?thesis by (simp add: calculate_cases metrics_tenths cvs_tenths f)
qed




text \<open>
  C1. Two concentration inputs with the same first six entries give different R-squared
  for the same six absorbances: line 112 takes the mean of the whole concentration list,
  so a seventh concentration changes the result from 1.0000 to 0.0148.
\<close>

theorem concentrations_beyond_sixth_change_r_squared:
  "take 6 [0, 1, 2, 3, 4, 5, 100 :: real] = take 6 [0, 1, 2, 3, 4, 5] \<and>
   assay_metrics ''0,1,2,3,4,5'' ''0,1,2,3,4,5'' = Inr (1, 125 / 2) \<and>
   assay_metrics ''0,1,2,3,4,5'' ''0,1,2,3,4,5,100'' = Inr (343 / 23158, 125 / 2) \<and>
   calculate_assay_metrics ''0,1,2,3,4,5'' ''0,1,2,3,4,5'' =
     Returned (Str (''R'' @ [CHR 0xC2, CHR 0xB2] @ '': 1.0000, Average CV: 62.50%'')) \<and>
   calculate_assay_metrics ''0,1,2,3,4,5'' ''0,1,2,3,4,5,100'' =
     Returned (Str (''R'' @ [CHR 0xC2, CHR 0xB2] @ '': 0.0148, Average CV: 62.50%''))"
proof -
  have f1: "format_metrics (1, 125 / 2) = ''R'' @ [CHR 0xC2, CHR 0xB2] @ '': 1.0000, Average CV: 62.50%''"
    by (simp add: format_simps)
  have f2: "format_metrics (343 / 23158, 125 / 2) = ''R'' @ [CHR 0xC2, CHR 0xB2] @ '': 0.0148, Average CV: 62.50%''"
    by (simp add: format_simps)
  show ?thesis
    by (simp add: calculate_cases metrics_line_six metrics_line_seven f1 f2)
qed

text \<open>
  C8. Absorbances that are exactly 2c + 1 on the six curve concentrations, with a seventh
  concentration in the list: the R-squared computed is 1715/27662, reported as 0.0620,
  not 1.
\<close>

theorem linear_data_r_squared_below_one:
  "parse_floats ''1,2,3,4,5,6,50'' = Inr [1, 2, 3, 4, 5, 6, 50] \<and>
   parse_floats ''3,5,7,9,11,13'' = Inr (map (\<lambda>c. 2 * c + 1) (take 6 [1, 2, 3, 4, 5, 6, 50])) \<and>
   assay_metrics ''3,5,7,9,11,13'' ''1,2,3,4,5,6,50'' = Inr (1715 / 27662, 320 / 11) \<and>
   (1715 / 27662 :: real) \<noteq> 1 \<and>
   calculate_assay_metrics ''3,5,7,9,11,13'' ''1,2,3,4,5,6,50'' =
     Returned (Str (''R'' @ [CHR 0xC2, CHR 0xB2] @ '': 0.0620, Average CV: 29.09%''))"
proof -
  have f: "format_metrics (1715 / 27662, 320 / 11) = ''R'' @ [CHR 0xC2, CHR 0xB2] @ '': 0.0620, Average CV: 29.09%''"
    by (simp add: format_simps)
  show ?thesis
    by (simp add: calculate_cases metrics_odd_line parse_odd_line parse_one_to_six_fifty f)
qed

text \<open>
  C3. After a successful connect from the initial state, the initialize step on a reader
  that does not support the wavelength query returns \<^verbatim>\<open>None\<close>: line 60 has no
  \<^verbatim>\<open>else\<close> and the function falls off its end.
\<close>

theorem initialize_returns_none:
  "connect_byonoy_reader plain_reader initial_binding =
     (Returned (Str ''Connected to Byonoy device successfully. Handle: 1''), Bound (Some 1),
      [Call_available_devices_count, Call_available_devices, Call_open_device]) \<and>
   read_tartrazine_absorbance plain_reader (Bound (Some 1)) 450 ''initialize'' =
     (Returned NoneVal,
      [Call_device_slot_status_supported, Call_abs96_available_wavelengths_supported])"
  by (simp add: connect_byonoy_reader_def connect_body_def read_tartrazine_absorbance_def
      read_body_def initialize_step_def slot_check_def plain_reader_def initial_binding_def
      io_simps try_except_def show_nat.simps digit_char_def)

text \<open>
  C4. With the global still unbound (no connect has assigned it), every call of
  read\_tartrazine\_absorbance, whatever the SDK, wavelength and step, makes no SDK call
  and returns the message of the NameError raised on line 49, not the message of line 50.
\<close>

theorem read_before_connect_name_error:
  "read_tartrazine_absorbance s initial_binding wavelength step =
     (Returned (Str (''Error: name '' @ [CHR 0x27] @ ''byonoy_device_handle'' @ [CHR 0x27]
                     @ '' is not defined'')), []) \<and>
   fst (read_tartrazine_absorbance s initial_binding wavelength step) \<noteq>
     Returned (Str ''Please connect to Byonoy reader first'')"
  by (simp add: read_tartrazine_absorbance_def read_body_def initial_binding_def io_simps
      try_except_def)

end
